theory Spec2Isabelle
  imports Main "HOL-Library.Multiset" "HOL-Library.AList"
begin

section \<open>Catalog and values (Crafting.jsx, lines 17-42)\<close>

text \<open>
  A slot of the inventory or of the crafting grid holds \<^verbatim>\<open>null\<close> or an item id (a
  JavaScript string). Reading an array beyond its length gives \<^verbatim>\<open>undefined\<close>, and
  writing beyond its length extends the array with holes that read as \<^verbatim>\<open>undefined\<close>;
  the third constructor keeps that value apart from \<^verbatim>\<open>null\<close>, since the handlers test
  \<^verbatim>\<open>=== null\<close> in some places and truthiness in others.
\<close>

datatype slot = Null | Undefined | Item string

text \<open>JavaScript truthiness of a slot value: \<^verbatim>\<open>Boolean(x)\<close>. The empty string is falsy.\<close>

fun Boolean :: "slot \<Rightarrow> bool" where
  "Boolean Null = False"
| "Boolean Undefined = False"
| "Boolean (Item s) = (s \<noteq> [])"

text \<open>\<^verbatim>\<open>xs[i]\<close> and \<^verbatim>\<open>xs[i] = v\<close> on a JavaScript array (on a copy, as the handlers do).\<close>

definition js_get :: "slot list \<Rightarrow> nat \<Rightarrow> slot" where
  "js_get xs i = (if i < length xs then xs ! i else Undefined)"

definition js_set :: "slot list \<Rightarrow> nat \<Rightarrow> slot \<Rightarrow> slot list" where
  "js_set xs i v =
     (if i < length xs then xs[i := v]
      else xs @ replicate (i - length xs) Undefined @ [v])"

text \<open>
  The display-only fields \<^verbatim>\<open>emoji\<close> and \<^verbatim>\<open>image\<close> of the catalog entries are left out:
  no handler reads them.
\<close>

record resource =
  id_resource :: string
  name_resource :: string

record recipe =
  id_recipe :: string
  name :: string
  description :: string
  ingredients :: "string list"

definition RESOURCES :: "resource list" where
  "RESOURCES =
     [\<lparr>id_resource = ''petal'', name_resource = ''Petal''\<rparr>,
      \<lparr>id_resource = ''leaf'', name_resource = ''Leaf''\<rparr>,
      \<lparr>id_resource = ''drop'', name_resource = ''Dew''\<rparr>]"

definition flower_bundle :: recipe where
  "flower_bundle =
     \<lparr>id_recipe = ''flower_bundle'', name = ''Flower Bundle'',
      description = ''A small bouquet of petals and leaves.'',
      ingredients = [''petal'', ''petal'', ''leaf'']\<rparr>"

definition sparkling_dew :: recipe where
  "sparkling_dew =
     \<lparr>id_recipe = ''sparkling_dew'', name = ''Sparkling Dew'',
      description = ''Potion of shine (final item).'',
      ingredients = [''drop'', ''petal'', ''leaf'']\<rparr>"

definition RECIPES :: "recipe list" where
  "RECIPES = [flower_bundle, sparkling_dew]"

definition STORAGE_KEY :: string where
  "STORAGE_KEY = ''crafting_game_v1''"

section \<open>Counting and recipe matching (lines 60-77)\<close>

text \<open>
  \<^verbatim>\<open>countItems\<close> builds an object from ids to counts. The object is an association list
  in insertion order, which is the order \<^verbatim>\<open>Object.keys\<close> enumerates string keys in;
  \<^verbatim>\<open>(acc[id] || 0) + 1\<close> starts a missing key at 1.
\<close>

definition countStep :: "(string \<times> nat) list \<Rightarrow> string \<Rightarrow> (string \<times> nat) list" where
  "countStep acc k =
     AList.update k ((case map_of acc k of None \<Rightarrow> 0 | Some c \<Rightarrow> c) + 1) acc"

definition countItems :: "string list \<Rightarrow> (string \<times> nat) list" where
  "countItems list = foldl countStep [] list"

text \<open>\<^verbatim>\<open>list.filter(Boolean)\<close>: the truthy entries, which are non-empty item ids.\<close>

fun filterBoolean :: "slot list \<Rightarrow> string list" where
  "filterBoolean [] = []"
| "filterBoolean (x # xs) =
     (case x of Item s \<Rightarrow> (if Boolean x then s # filterBoolean xs else filterBoolean xs)
      | _ \<Rightarrow> filterBoolean xs)"

text \<open>
  The test of the loops at lines 70-72 and 253-255 for one key \<open>k\<close> with required count
  \<open>n\<close>: \<^verbatim>\<open>!counts[k] || counts[k] < n\<close>.
\<close>

definition lacking :: "(string \<times> nat) list \<Rightarrow> string \<times> nat \<Rightarrow> bool" where
  "lacking counts kn =
     (case map_of counts (fst kn) of None \<Rightarrow> True | Some c \<Rightarrow> c = 0 \<or> c < snd kn)"

definition matchRecipe :: "slot list \<Rightarrow> recipe \<Rightarrow> bool" where
  "matchRecipe gridItems r =
     (let gridCounts = countItems (filterBoolean gridItems);
          reqCounts = countItems (ingredients r)
      in if list_ex (lacking gridCounts) reqCounts then False
         else length (filterBoolean gridItems) = length (ingredients r))"

text \<open>The non-null entries of a slot array that are item ids, in order.\<close>

fun items :: "slot list \<Rightarrow> string list" where
  "items [] = []"
| "items (Item s # xs) = s # items xs"
| "items (_ # xs) = items xs"

section \<open>Game state and handlers (lines 97-265)\<close>

text \<open>
  The persisted state \<^verbatim>\<open>inventory\<close> is an object with the fields \<^verbatim>\<open>inv\<close>,
  \<^verbatim>\<open>discovered\<close> and \<^verbatim>\<open>finalCrafted\<close>. \<^verbatim>\<open>discovered\<close> is an object from recipe ids
  to \<^verbatim>\<open>true\<close>, kept as an association list in insertion order.
\<close>

record gameState =
  inv :: "slot list"
  discovered :: "(string \<times> bool) list"
  finalCrafted :: bool

text \<open>The drag payloads built at lines 298, 330 and 368.\<close>

datatype payload = Palette string | Inv nat | Craft nat

text \<open>
  The component's state (\<^verbatim>\<open>inventory\<close>, \<^verbatim>\<open>craftGrid\<close>, \<^verbatim>\<open>dragData\<close>) together with
  the browser's \<^verbatim>\<open>localStorage\<close>.
\<close>

record world =
  inventory :: gameState
  craftGrid :: "slot list"
  dragData :: "payload option"
  storage :: "string \<rightharpoonup> string"

definition initial :: gameState where
  "initial = \<lparr>inv = replicate 18 Null, discovered = [], finalCrafted = False\<rparr>"

text \<open>\<^verbatim>\<open>xs.findIndex(p)\<close>, with \<open>None\<close> for the result \<^verbatim>\<open>-1\<close>.\<close>

fun findIndex :: "('a \<Rightarrow> bool) \<Rightarrow> 'a list \<Rightarrow> nat option" where
  "findIndex p [] = None"
| "findIndex p (x # xs) = (if p x then Some 0 else map_option Suc (findIndex p xs))"

definition possibleRecipe :: "slot list \<Rightarrow> recipe option" where
  "possibleRecipe grid = List.find (matchRecipe grid) RECIPES"

definition addResourceToFirstSlot :: "string \<Rightarrow> world \<Rightarrow> world" where
  "addResourceToFirstSlot i w =
     (case findIndex (\<lambda>x. x = Null) (inv (inventory w)) of
        None \<Rightarrow> w
      | Some slot \<Rightarrow>
          w\<lparr>inventory := (inventory w)\<lparr>inv := js_set (inv (inventory w)) slot (Item i)\<rparr>\<rparr>)"

definition onDragStart :: "payload \<Rightarrow> world \<Rightarrow> world" where
  "onDragStart p w = w\<lparr>dragData := Some p\<rparr>"

text \<open>
  \<^verbatim>\<open>dragData || JSON.parse(e.dataTransfer.getData("text/plain") || "null")\<close>: the
  second argument is the payload carried by the drop event, if any.
\<close>

definition dropPayload :: "world \<Rightarrow> payload option \<Rightarrow> payload option" where
  "dropPayload w ev = (case dragData w of Some p \<Rightarrow> Some p | None \<Rightarrow> ev)"

definition onDropToInv :: "payload option \<Rightarrow> nat \<Rightarrow> world \<Rightarrow> world" where
  "onDropToInv ev targetIndex w =
     (case dropPayload w ev of
        None \<Rightarrow> w
      | Some (Palette i) \<Rightarrow>
          (if js_get (inv (inventory w)) targetIndex \<noteq> Null then w
           else w\<lparr>inventory := (inventory w)
                   \<lparr>inv := js_set (inv (inventory w)) targetIndex (Item i)\<rparr>\<rparr>)
      | Some (Inv from) \<Rightarrow>
          (let newInv = js_set (inv (inventory w)) targetIndex (js_get (inv (inventory w)) from);
               newInv = js_set newInv from Null
           in w\<lparr>inventory := (inventory w)\<lparr>inv := newInv\<rparr>\<rparr>)
      | Some (Craft idx) \<Rightarrow>
          (if js_get (inv (inventory w)) targetIndex \<noteq> Null then w
           else w\<lparr>inventory := (inventory w)
                     \<lparr>inv := js_set (inv (inventory w)) targetIndex (js_get (craftGrid w) idx)\<rparr>,
                   craftGrid := js_set (craftGrid w) idx Null\<rparr>))"

definition onDropToCraft :: "payload option \<Rightarrow> nat \<Rightarrow> world \<Rightarrow> world" where
  "onDropToCraft ev targetIndex w =
     (case dropPayload w ev of
        None \<Rightarrow> w
      | Some (Palette i) \<Rightarrow>
          (if js_get (craftGrid w) targetIndex \<noteq> Null then w
           else w\<lparr>craftGrid := js_set (craftGrid w) targetIndex (Item i)\<rparr>)
      | Some (Inv from) \<Rightarrow>
          (if js_get (craftGrid w) targetIndex \<noteq> Null then w
           else w\<lparr>inventory := (inventory w)\<lparr>inv := js_set (inv (inventory w)) from Null\<rparr>,
                   craftGrid := js_set (craftGrid w) targetIndex (js_get (inv (inventory w)) from)\<rparr>)
      | Some (Craft from) \<Rightarrow>
          (let newCraft = js_set (craftGrid w) targetIndex (js_get (craftGrid w) from);
               newCraft = js_set newCraft from (js_get (craftGrid w) targetIndex)
           in w\<lparr>craftGrid := newCraft\<rparr>))"

definition onDeleteInv :: "nat \<Rightarrow> world \<Rightarrow> world" where
  "onDeleteInv index w =
     w\<lparr>inventory := (inventory w)\<lparr>inv := js_set (inv (inventory w)) index Null\<rparr>\<rparr>"

text \<open>
  The loop of lines 219-226 over the copy of the grid: a truthy slot whose id is still
  in \<open>req\<close> is set to \<^verbatim>\<open>null\<close> and the first occurrence of the id is spliced out of
  \<open>req\<close>.
\<close>

fun removeIngredients :: "string list \<Rightarrow> slot list \<Rightarrow> slot list" where
  "removeIngredients req [] = []"
| "removeIngredients req (x # xs) =
     (case x of
        Item s \<Rightarrow>
          (if Boolean x \<and> s \<in> set req then Null # removeIngredients (remove1 s req) xs
           else x # removeIngredients req xs)
      | _ \<Rightarrow> x # removeIngredients req xs)"

text \<open>What \<^verbatim>\<open>confirmCraft\<close> did: returned at line 215, alerted at line 231, or crafted.\<close>

datatype outcome = NoRecipe | InventoryFull | Crafted recipe

definition confirmCraft :: "world \<Rightarrow> outcome \<times> world" where
  "confirmCraft w =
     (case possibleRecipe (craftGrid w) of
        None \<Rightarrow> (NoRecipe, w)
      | Some r \<Rightarrow>
          (let newCraft = removeIngredients (ingredients r) (craftGrid w);
               invCopy = inv (inventory w)
           in case findIndex (\<lambda>x. x = Null) invCopy of
                None \<Rightarrow> (InventoryFull, w)
              | Some free \<Rightarrow>
                  (Crafted r,
                   w\<lparr>inventory :=
                       \<lparr>inv = js_set invCopy free (Item (id_recipe r)),
                        discovered = AList.update (id_recipe r) True (discovered (inventory w)),
                        finalCrafted =
                          (finalCrafted (inventory w) \<or> id_recipe r = id_recipe (last RECIPES))\<rparr>,
                     craftGrid := newCraft\<rparr>)))"

definition canCraftWithResources :: "world \<Rightarrow> recipe list" where
  "canCraftWithResources w =
     (let available = filterBoolean (inv (inventory w) @ craftGrid w);
          availCounts = countItems available
      in filter (\<lambda>r. \<not> list_ex (lacking availCounts) (countItems (ingredients r))) RECIPES)"

text \<open>\<^verbatim>\<open>resetGame\<close>; the first argument is the answer of the \<^verbatim>\<open>confirm\<close> dialog.\<close>

definition resetGame :: "bool \<Rightarrow> world \<Rightarrow> world" where
  "resetGame ok w =
     (if \<not> ok then w
      else w\<lparr>storage := (storage w)(STORAGE_KEY := None),
              inventory := \<lparr>inv = replicate 18 Null, discovered = [], finalCrafted = False\<rparr>,
              craftGrid := replicate 9 Null\<rparr>)"

text \<open>The "Clear Inventory" button (line 310).\<close>

definition clearInventory :: "world \<Rightarrow> world" where
  "clearInventory w =
     w\<lparr>inventory := (inventory w)\<lparr>inv := replicate 18 Null\<rparr>, craftGrid := replicate 9 Null\<rparr>"

section \<open>Persistence hook (lines 45-58)\<close>

text \<open>
  \<^verbatim>\<open>JSON.parse\<close> and \<^verbatim>\<open>JSON.stringify\<close> belong to the platform and are parameters.
  A parser returns \<open>Inl SyntaxError\<close> where \<^verbatim>\<open>JSON.parse\<close> throws.
\<close>

datatype js_error = SyntaxError

text \<open>
  The initialiser passed to \<^verbatim>\<open>useState\<close>: \<open>raw\<close> is the result of
  \<^verbatim>\<open>localStorage.getItem(key)\<close> (\<open>None\<close> for \<^verbatim>\<open>null\<close>); the empty string is falsy, so
  it takes the \<^verbatim>\<open>initial\<close> branch; the \<^verbatim>\<open>catch\<close> turns every exception into
  \<^verbatim>\<open>initial\<close>. The result is \<open>Inl\<close> where the initialiser itself would throw.
\<close>

definition usePersistedState_init ::
  "(string \<Rightarrow> js_error + 'a) \<Rightarrow> string option \<Rightarrow> 'a \<Rightarrow> js_error + 'a" where
  "usePersistedState_init parse raw ini =
     (case (case raw of
              None \<Rightarrow> Inr ini
            | Some r \<Rightarrow> if r = [] then Inr ini else parse r) of
        Inl e \<Rightarrow> Inr ini
      | Inr v \<Rightarrow> Inr v)"

text \<open>
  The effect of lines 54-56, which React runs after every render in which \<^verbatim>\<open>state\<close>
  is a new object, that is after every handler that called \<^verbatim>\<open>setInventory\<close>.
\<close>

definition usePersistedState_effect :: "(gameState \<Rightarrow> string) \<Rightarrow> world \<Rightarrow> world" where
  "usePersistedState_effect stringify w =
     w\<lparr>storage := (storage w)(STORAGE_KEY \<mapsto> stringify (inventory w))\<rparr>"

section \<open>User actions\<close>

text \<open>The events the view dispatches to the handlers.\<close>

datatype action =
    AddResource string
  | DragStart payload
  | DropToInv "payload option" nat
  | DropToCraft "payload option" nat
  | DeleteInv nat
  | ConfirmCraft
  | ClearInventory
  | ResetGame bool

fun handle :: "action \<Rightarrow> world \<Rightarrow> world" where
  "handle (AddResource i) w = addResourceToFirstSlot i w"
| "handle (DragStart p) w = onDragStart p w"
| "handle (DropToInv ev t) w = onDropToInv ev t w"
| "handle (DropToCraft ev t) w = onDropToCraft ev t w"
| "handle (DeleteInv i) w = onDeleteInv i w"
| "handle ConfirmCraft w = snd (confirmCraft w)"
| "handle ClearInventory w = clearInventory w"
| "handle (ResetGame ok) w = resetGame ok w"

section \<open>Concrete states\<close>

text \<open>The grid of the flower bundle: two petals and a leaf in the first three slots.\<close>

definition grid_flower :: "slot list" where
  "grid_flower = [Item ''petal'', Item ''petal'', Item ''leaf'', Null, Null, Null, Null, Null, Null]"

text \<open>All 18 inventory slots occupied, and a grid that matches the flower bundle.\<close>

definition world_full :: world where
  "world_full =
     \<lparr>inventory = \<lparr>inv = replicate 18 (Item ''petal''), discovered = [], finalCrafted = False\<rparr>,
      craftGrid = grid_flower, dragData = None, storage = Map.empty\<rparr>"

text \<open>A petal in inventory slot 0, a leaf in slot 1, and slot 0 being dragged.\<close>

definition world_two :: world where
  "world_two =
     \<lparr>inventory = \<lparr>inv = [Item ''petal'', Item ''leaf''] @ replicate 16 Null,
                   discovered = [], finalCrafted = False\<rparr>,
      craftGrid = replicate 9 Null, dragData = Some (Inv 0), storage = Map.empty\<rparr>"

text \<open>A petal in grid slot 0, a leaf in grid slot 1, and grid slot 0 being dragged.\<close>

definition world_craft :: world where
  "world_craft =
     \<lparr>inventory = \<lparr>inv = replicate 18 Null, discovered = [], finalCrafted = False\<rparr>,
      craftGrid = [Item ''petal'', Item ''leaf'', Null, Null, Null, Null, Null, Null, Null],
      dragData = Some (Craft 0), storage = Map.empty\<rparr>"

text \<open>An empty inventory and the ingredients of the sparkling dew on the grid.\<close>

definition world_dew :: world where
  "world_dew =
     \<lparr>inventory = \<lparr>inv = replicate 18 Null, discovered = [], finalCrafted = False\<rparr>,
      craftGrid = [Item ''drop'', Item ''petal'', Item ''leaf'', Null, Null, Null, Null, Null, Null],
      dragData = None, storage = Map.empty\<rparr>"

text \<open>An empty inventory and the flower bundle on the grid, and the state its craft gives.\<close>

definition world_flower :: world where
  "world_flower =
     \<lparr>inventory = \<lparr>inv = replicate 18 Null, discovered = [], finalCrafted = False\<rparr>,
      craftGrid = grid_flower, dragData = None, storage = Map.empty\<rparr>"

definition world_crafted :: world where
  "world_crafted =
     \<lparr>inventory = \<lparr>inv = Item ''flower_bundle'' # replicate 17 Null,
                   discovered = [(''flower_bundle'', True)], finalCrafted = False\<rparr>,
      craftGrid = replicate 9 Null, dragData = None, storage = Map.empty\<rparr>"

text \<open>A petal and a leaf in the inventory, one more petal on the grid.\<close>

definition world_parts :: world where
  "world_parts =
     \<lparr>inventory = \<lparr>inv = [Item ''petal'', Item ''leaf''] @ replicate 16 Null,
                   discovered = [], finalCrafted = False\<rparr>,
      craftGrid = [Item ''petal'', Null, Null, Null, Null, Null, Null, Null, Null],
      dragData = None, storage = Map.empty\<rparr>"

text \<open>A finished game with a stored entry, and a parser that knows that entry only.\<close>

definition world_saved :: world where
  "world_saved =
     \<lparr>inventory = \<lparr>inv = [Item ''sparkling_dew''] @ replicate 17 Null,
                   discovered = [(''sparkling_dew'', True)], finalCrafted = True\<rparr>,
      craftGrid = [Item ''petal'', Null, Null, Null, Null, Null, Null, Null, Null],
      dragData = None, storage = [STORAGE_KEY \<mapsto> ''saved'']\<rparr>"

definition parse_saved :: "string \<Rightarrow> js_error + gameState" where
  "parse_saved s = (if s = ''saved'' then Inr (inventory world_saved) else Inl SyntaxError)"

text \<open>
  A stand-in for \<^verbatim>\<open>JSON.stringify\<close> that tells the fresh state from every other one.
\<close>

definition stringify_tag :: "gameState \<Rightarrow> string" where
  "stringify_tag s = (if s = initial then ''fresh'' else ''other'')"

section \<open>Counting computes multiplicities\<close>

lemma map_of_countStep:
  "map_of (countStep acc x) k =
     (if k = x then Some ((case map_of acc x of None \<Rightarrow> 0 | Some c \<Rightarrow> c) + 1)
      else map_of acc k)"
  by (simp add: countStep_def update_conv')

lemma distinct_countStep:
  "distinct (map fst acc) \<Longrightarrow> distinct (map fst (countStep acc x))"
  by (simp add: countStep_def distinct_update)

lemma map_of_foldl_countStep:
  "map_of (foldl countStep acc xs) k =
     (if k \<in> set xs \<or> map_of acc k \<noteq> None
      then Some ((case map_of acc k of None \<Rightarrow> 0 | Some c \<Rightarrow> c) + count_list xs k)
      else None)"
proof (induction xs arbitrary: acc)
  case Nil
  then show ?case by (auto split: option.splits)
next
  case (Cons x xs)
  show ?case
    by (simp add: Cons.IH map_of_countStep split: option.splits)
qed

lemma map_of_countItems:
  "map_of (countItems xs) k = (if k \<in> set xs then Some (count_list xs k) else None)"
  by (simp add: countItems_def map_of_foldl_countStep)

lemma distinct_foldl_countStep:
  "distinct (map fst acc) \<Longrightarrow> distinct (map fst (foldl countStep acc xs))"
  by (induction xs arbitrary: acc) (simp_all add: distinct_countStep)

lemma distinct_countItems: "distinct (map fst (countItems xs))"
  by (simp add: countItems_def distinct_foldl_countStep)

lemma set_countItems:
  "(k, n) \<in> set (countItems xs) \<longleftrightarrow> k \<in> set xs \<and> n = count_list xs k"
  using map_of_eq_Some_iff [OF distinct_countItems, of xs k n]
  by (auto simp: map_of_countItems split: if_splits)

lemma list_ex_lacking:
  "list_ex (lacking (countItems avail)) (countItems req) \<longleftrightarrow>
     (\<exists>k \<in> set req. count_list avail k < count_list req k)"
proof -
  have pos: "k \<in> set req \<Longrightarrow> 0 < count_list req k" for k
    by (metis count_list_0_iff gr0I)
  have "list_ex (lacking (countItems avail)) (countItems req) \<longleftrightarrow>
        (\<exists>k \<in> set req. lacking (countItems avail) (k, count_list req k))"
    by (auto simp: list_ex_iff set_countItems)
  also have "\<dots> \<longleftrightarrow> (\<exists>k \<in> set req. count_list avail k < count_list req k)"
    using pos by (auto simp: lacking_def map_of_countItems count_list_0_iff
        intro!: bexI split: if_splits)
  finally show ?thesis .
qed

lemma sufficient_iff_subset:
  "\<not> list_ex (lacking (countItems avail)) (countItems req) \<longleftrightarrow> mset req \<subseteq># mset avail"
proof -
  have "(\<forall>k \<in> set req. count_list req k \<le> count_list avail k) \<longleftrightarrow>
        (\<forall>k. count_list req k \<le> count_list avail k)"
    by (metis count_list_0_iff le0)
  then show ?thesis
    by (simp add: list_ex_lacking subseteq_mset_def not_less count_mset)
qed

lemma matchRecipe_iff_filterBoolean:
  "matchRecipe g r \<longleftrightarrow> mset (filterBoolean g) = mset (ingredients r)"
proof
  assume "matchRecipe g r"
  then have sub: "mset (ingredients r) \<subseteq># mset (filterBoolean g)"
    and len: "length (filterBoolean g) = length (ingredients r)"
    by (auto simp: matchRecipe_def Let_def sufficient_iff_subset [symmetric] split: if_splits)
  from len have "size (mset (filterBoolean g)) = size (mset (ingredients r))" by simp
  with sub show "mset (filterBoolean g) = mset (ingredients r)"
    using mset_subset_size subset_mset.less_le by fastforce
next
  assume eq: "mset (filterBoolean g) = mset (ingredients r)"
  then have "length (filterBoolean g) = length (ingredients r)"
    by (metis size_mset)
  with eq show "matchRecipe g r"
    by (simp add: matchRecipe_def Let_def sufficient_iff_subset [simplified])
qed

lemma filterBoolean_items: "filterBoolean g = filter (\<lambda>s. s \<noteq> []) (items g)"
  by (induction g rule: items.induct) simp_all

lemma filterBoolean_items_eq: "Item [] \<notin> set g \<Longrightarrow> filterBoolean g = items g"
  by (induction g rule: items.induct) auto

lemma items_subset_filterBoolean:
  assumes "[] \<notin> set req"
  shows "mset req \<subseteq># mset (filterBoolean g) \<longleftrightarrow> mset req \<subseteq># mset (items g)"
proof -
  have "count (mset req) k \<le> count (mset (filterBoolean g)) k \<longleftrightarrow>
        count (mset req) k \<le> count (mset (items g)) k" for k
    using assms by (cases "k = []") (auto simp: filterBoolean_items count_mset count_list_0_iff)
  then show ?thesis by (simp add: subseteq_mset_def)
qed

section \<open>Arrays, search and the craft handler\<close>

lemma js_get_js_set_same: "js_get (js_set xs i v) i = v"
  by (simp add: js_get_def js_set_def nth_append)

lemma js_get_js_set_other: "i \<noteq> j \<Longrightarrow> js_get (js_set xs i v) j = js_get xs j"
  by (auto simp: js_get_def js_set_def nth_append)

lemma findIndex_None: "findIndex p xs = None \<longleftrightarrow> (\<forall>x \<in> set xs. \<not> p x)"
  by (induction xs) auto

lemma findIndex_Some: "findIndex p xs = Some i \<Longrightarrow> i < length xs \<and> p (xs ! i)"
  by (induction xs arbitrary: i) (auto split: if_splits)

lemma possibleRecipe_Some:
  "possibleRecipe g = Some r \<Longrightarrow> r \<in> set RECIPES \<and> matchRecipe g r"
  by (auto simp: possibleRecipe_def find_Some_iff)

lemma possibleRecipe_grid_flower: "possibleRecipe grid_flower = Some flower_bundle"
  by (simp add: possibleRecipe_def RECIPES_def matchRecipe_iff_filterBoolean
      grid_flower_def flower_bundle_def)

lemma recipe_id_last:
  "r \<in> set RECIPES \<Longrightarrow> id_recipe r = id_recipe (last RECIPES) \<longleftrightarrow> r = last RECIPES"
  by (auto simp: RECIPES_def flower_bundle_def sparkling_dew_def)

text \<open>The three ways \<^verbatim>\<open>confirmCraft\<close> ends.\<close>

lemma confirmCraft_cases:
  obtains "confirmCraft w = (NoRecipe, w)" "possibleRecipe (craftGrid w) = None"
  | r where "confirmCraft w = (InventoryFull, w)" "possibleRecipe (craftGrid w) = Some r"
      "findIndex (\<lambda>x. x = Null) (inv (inventory w)) = None"
  | r free where "possibleRecipe (craftGrid w) = Some r"
      "findIndex (\<lambda>x. x = Null) (inv (inventory w)) = Some free"
      "confirmCraft w =
         (Crafted r,
          w\<lparr>inventory :=
              \<lparr>inv = js_set (inv (inventory w)) free (Item (id_recipe r)),
               discovered = AList.update (id_recipe r) True (discovered (inventory w)),
               finalCrafted =
                 (finalCrafted (inventory w) \<or> id_recipe r = id_recipe (last RECIPES))\<rparr>,
            craftGrid := removeIngredients (ingredients r) (craftGrid w)\<rparr>)"
  by (cases "possibleRecipe (craftGrid w)";
      cases "findIndex (\<lambda>x. x = Null) (inv (inventory w))")
    (auto simp: confirmCraft_def Let_def)

lemma finalCrafted_confirmCraft:
  "finalCrafted (inventory (snd (confirmCraft w))) \<longleftrightarrow>
     finalCrafted (inventory w) \<or> fst (confirmCraft w) = Crafted (last RECIPES)"
  by (rule confirmCraft_cases [of w])
    (auto dest!: possibleRecipe_Some simp: recipe_id_last)

lemma finalCrafted_handle:
  "finalCrafted (inventory (handle a w)) \<longleftrightarrow>
     (case a of
        ResetGame ok \<Rightarrow> \<not> ok \<and> finalCrafted (inventory w)
      | ConfirmCraft \<Rightarrow> finalCrafted (inventory w) \<or> fst (confirmCraft w) = Crafted (last RECIPES)
      | _ \<Rightarrow> finalCrafted (inventory w))"
proof (cases a)
  case ConfirmCraft
  then show ?thesis by (simp add: finalCrafted_confirmCraft)
qed (auto simp: addResourceToFirstSlot_def onDragStart_def onDropToInv_def onDropToCraft_def
    onDeleteInv_def clearInventory_def resetGame_def Let_def
    split: option.splits payload.splits)

lemma possibleRecipe_grid_dew:
  "possibleRecipe [Item ''drop'', Item ''petal'', Item ''leaf'', Null, Null, Null, Null, Null, Null]
     = Some sparkling_dew"
  by (simp add: possibleRecipe_def RECIPES_def matchRecipe_iff_filterBoolean
      flower_bundle_def sparkling_dew_def)

lemma findIndex_replicate_Null: "0 < n \<Longrightarrow> findIndex (\<lambda>x. x = Null) (replicate n Null) = Some 0"
  by (cases n) simp_all

lemma confirmCraft_world_dew: "fst (confirmCraft world_dew) = Crafted sparkling_dew"
  by (simp add: confirmCraft_def world_dew_def possibleRecipe_grid_dew Let_def
      findIndex_replicate_Null)

lemma replicate_9: "replicate 9 x = [x, x, x, x, x, x, x, x, x]"
  by (simp add: numeral_eq_Suc)

lemma removeIngredients_grid_flower:
  "removeIngredients (ingredients flower_bundle) grid_flower = replicate 9 Null"
  by (simp add: grid_flower_def replicate_9 flower_bundle_def)

lemma js_set_replicate_0:
  "js_set (replicate 18 Null) 0 v = v # replicate 17 Null"
  by (simp add: js_set_def numeral_eq_Suc)

text \<open>
  The scenario of the flower bundle: the craft empties the grid, puts the bundle into
  inventory slot 0, records it as discovered and leaves \<^verbatim>\<open>finalCrafted\<close> false.
\<close>

lemma confirmCraft_world_flower:
  "confirmCraft world_flower = (Crafted flower_bundle, world_crafted)"
proof -
  have p: "possibleRecipe (craftGrid world_flower) = Some flower_bundle"
    by (simp add: world_flower_def possibleRecipe_grid_flower)
  have f: "findIndex (\<lambda>x. x = Null) (inv (inventory world_flower)) = Some 0"
    by (simp add: world_flower_def findIndex_replicate_Null)
  have g: "craftGrid world_flower = grid_flower"
    and i: "inv (inventory world_flower) = replicate 18 Null"
    and d: "discovered (inventory world_flower) = []"
    and c: "\<not> finalCrafted (inventory world_flower)"
    by (simp_all add: world_flower_def)
  have l: "''flower_bundle'' \<noteq> id_recipe (last RECIPES)"
    and n: "id_recipe flower_bundle = ''flower_bundle''"
    by (simp_all add: RECIPES_def flower_bundle_def sparkling_dew_def)
  have "confirmCraft world_flower =
      (Crafted flower_bundle,
       world_flower\<lparr>inventory :=
           \<lparr>inv = Item ''flower_bundle'' # replicate 17 Null,
            discovered = [(''flower_bundle'', True)], finalCrafted = False\<rparr>,
         craftGrid := replicate 9 Null\<rparr>)"
    unfolding confirmCraft_def p f Let_def
    by (simp add: g i d removeIngredients_grid_flower js_set_replicate_0 l c n)
  then show ?thesis
    by (simp add: world_flower_def world_crafted_def)
qed

lemma items_append: "items (xs @ ys) = items xs @ items ys"
  by (induction xs rule: items.induct) simp_all

lemma items_replicate_Null: "items (replicate n Null) = []"
  by (induction n) simp_all

lemma catalog_ingredients_nonempty: "r \<in> set RECIPES \<Longrightarrow> [] \<notin> set (ingredients r)"
  by (auto simp: RECIPES_def flower_bundle_def sparkling_dew_def)

text \<open>A craft with a matching recipe and a \<^verbatim>\<open>null\<close> inventory slot goes through.\<close>

lemma confirmCraft_Crafted:
  assumes "possibleRecipe (craftGrid w) = Some r" and "Null \<in> set (inv (inventory w))"
  shows "fst (confirmCraft w) = Crafted r"
    and "discovered (inventory (snd (confirmCraft w))) =
           AList.update (id_recipe r) True (discovered (inventory w))"
proof -
  from assms(2) have "findIndex (\<lambda>x. x = Null) (inv (inventory w)) \<noteq> None"
    by (auto simp: findIndex_None)
  then obtain free where f: "findIndex (\<lambda>x. x = Null) (inv (inventory w)) = Some free"
    by blast
  show "fst (confirmCraft w) = Crafted r"
    by (simp add: confirmCraft_def Let_def assms(1) f)
  show "discovered (inventory (snd (confirmCraft w))) =
           AList.update (id_recipe r) True (discovered (inventory w))"
    by (simp add: confirmCraft_def Let_def assms(1) f)
qed

lemma count_list_keys_update:
  "distinct (map fst al) \<Longrightarrow> count_list (map fst (AList.update k v al)) k = 1"
proof (induction al)
  case Nil
  then show ?case by simp
next
  case (Cons p al)
  then show ?case
    by (cases p) (auto simp: count_list_0_iff)
qed

section \<open>The claims\<close>

text \<open>
  C1, as the code has it. When a recipe matches the grid and no inventory slot is
  \<^verbatim>\<open>null\<close>, \<^verbatim>\<open>confirmCraft\<close> alerts and returns at line 232, before either
  \<^verbatim>\<open>setInventory\<close> or \<^verbatim>\<open>setCraftGrid\<close> is called: the ingredients were removed from a
  local copy of the grid only, so the whole state is unchanged. The grid keeps its
  ingredients, no item is added and \<^verbatim>\<open>discovered\<close> is not updated.
\<close>

theorem confirmCraft_inventory_full:
  assumes "possibleRecipe (craftGrid w) = Some r" and "Null \<notin> set (inv (inventory w))"
  shows "confirmCraft w = (InventoryFull, w)"
proof -
  from assms(2) have "findIndex (\<lambda>x. x = Null) (inv (inventory w)) = None"
    by (auto simp: findIndex_None)
  with assms(1) show ?thesis by (simp add: confirmCraft_def)
qed

theorem confirmCraft_inventory_full_witness:
  "possibleRecipe (craftGrid world_full) = Some flower_bundle \<and>
   Null \<notin> set (inv (inventory world_full)) \<and>
   confirmCraft world_full = (InventoryFull, world_full)"
proof -
  have p: "possibleRecipe (craftGrid world_full) = Some flower_bundle"
    by (simp add: world_full_def possibleRecipe_grid_flower)
  have f: "Null \<notin> set (inv (inventory world_full))"
    by (simp add: world_full_def)
  show ?thesis using p f confirmCraft_inventory_full [OF p f] by simp
qed

text \<open>
  C1 as stated fails: with 18 occupied slots and the flower bundle on the grid, the
  full-inventory path is taken, yet the three ingredient slots of the grid still hold
  their items afterwards and \<^verbatim>\<open>discovered\<close> is still empty.
\<close>

theorem confirmCraft_full_keeps_grid_counterexample:
  "possibleRecipe (craftGrid world_full) = Some flower_bundle \<and>
   length (inv (inventory world_full)) = 18 \<and>
   Null \<notin> set (inv (inventory world_full)) \<and>
   fst (confirmCraft world_full) = InventoryFull \<and>
   craftGrid (snd (confirmCraft world_full)) =
     [Item ''petal'', Item ''petal'', Item ''leaf'', Null, Null, Null, Null, Null, Null] \<and>
   discovered (inventory (snd (confirmCraft world_full))) = []"
proof -
  have "findIndex (\<lambda>x. x = Null) (replicate 18 (Item ''petal'')) = None"
    by (simp add: findIndex_None)
  then show ?thesis
    by (simp add: confirmCraft_def world_full_def possibleRecipe_grid_flower)
      (simp add: grid_flower_def)
qed

text \<open>
  C2 at a failing input. Slot 0 holds a petal, slot 1 a leaf; dropping slot 0 onto slot 1
  runs lines 155-156: slot 1 receives the petal and slot 0 becomes \<^verbatim>\<open>null\<close>. The leaf is
  overwritten and is nowhere in the inventory afterwards, where a swap would have put
  it into slot 0.
\<close>

theorem onDropToInv_inv_overwrites_target:
  "dropPayload world_two None = Some (Inv 0) \<and>
   js_get (inv (inventory world_two)) 0 = Item ''petal'' \<and>
   js_get (inv (inventory world_two)) 1 = Item ''leaf'' \<and>
   js_get (inv (inventory (onDropToInv None 1 world_two))) 1 = Item ''petal'' \<and>
   js_get (inv (inventory (onDropToInv None 1 world_two))) 0 = Null \<and>
   Item ''leaf'' \<notin> set (inv (inventory (onDropToInv None 1 world_two)))"
  by (simp add: world_two_def onDropToInv_def dropPayload_def js_get_def js_set_def)

text \<open>
  C3. For every recipe \<open>R\<close> of the catalog and every grid \<open>G\<close> whose slots are
  \<^verbatim>\<open>null\<close> or non-empty item ids, \<^verbatim>\<open>matchRecipe(G, R)\<close> is true if and only if the
  multiset of the non-null entries of \<open>G\<close> equals the multiset of \<open>R\<close>'s ingredients; in
  particular a grid holding the ingredients and one more item does not match.
\<close>

theorem matchRecipe_exact_multiset:
  assumes "R \<in> set RECIPES" and "Item [] \<notin> set G"
  shows "(matchRecipe G R \<longleftrightarrow> mset (items G) = mset (ingredients R)) \<and>
         (\<forall>x. mset (items G) = add_mset x (mset (ingredients R)) \<longrightarrow> \<not> matchRecipe G R)"
  using assms(2) by (simp add: matchRecipe_iff_filterBoolean filterBoolean_items_eq)

theorem matchRecipe_exact_multiset_witness:
  "flower_bundle \<in> set RECIPES \<and> Item [] \<notin> set grid_flower \<and>
   matchRecipe grid_flower flower_bundle \<and>
   \<not> matchRecipe (grid_flower[3 := Item ''drop'']) flower_bundle \<and>
   \<not> matchRecipe grid_flower sparkling_dew"
proof -
  have r: "flower_bundle \<in> set RECIPES" and r': "sparkling_dew \<in> set RECIPES"
    by (simp_all add: RECIPES_def)
  have g: "Item [] \<notin> set grid_flower" and g': "Item [] \<notin> set (grid_flower[3 := Item ''drop''])"
    by (simp_all add: grid_flower_def)
  show ?thesis
    using r g matchRecipe_exact_multiset [OF r g] matchRecipe_exact_multiset [OF r g']
      matchRecipe_exact_multiset [OF r' g]
    by (simp add: grid_flower_def flower_bundle_def sparkling_dew_def)
qed

text \<open>
  C4, as the code has it. A palette item dropped onto an inventory or grid slot, and a
  grid item dropped onto an inventory slot, leave the whole state unchanged when the
  target is not \<^verbatim>\<open>null\<close>; when the target is \<^verbatim>\<open>null\<close> it receives the dragged item
  (and a dragged grid slot is cleared). A grid item dropped onto a grid slot has no
  occupancy test (lines 198-203): the two grid slots exchange their contents whether
  the target is occupied or not, and the inventory is untouched.
\<close>

theorem drop_onto_slot:
  "((dropPayload w ev = Some (Palette i) \<or> dropPayload w ev = Some (Craft c)) \<and>
      js_get (inv (inventory w)) t \<noteq> Null \<longrightarrow> onDropToInv ev t w = w) \<and>
   (dropPayload w ev = Some (Palette i) \<and> js_get (craftGrid w) t \<noteq> Null \<longrightarrow>
      onDropToCraft ev t w = w) \<and>
   (dropPayload w ev = Some (Palette i) \<and> js_get (inv (inventory w)) t = Null \<longrightarrow>
      js_get (inv (inventory (onDropToInv ev t w))) t = Item i) \<and>
   (dropPayload w ev = Some (Craft c) \<and> js_get (inv (inventory w)) t = Null \<longrightarrow>
      js_get (inv (inventory (onDropToInv ev t w))) t = js_get (craftGrid w) c \<and>
      js_get (craftGrid (onDropToInv ev t w)) c = Null) \<and>
   (dropPayload w ev = Some (Palette i) \<and> js_get (craftGrid w) t = Null \<longrightarrow>
      js_get (craftGrid (onDropToCraft ev t w)) t = Item i) \<and>
   (dropPayload w ev = Some (Craft c) \<longrightarrow>
      js_get (craftGrid (onDropToCraft ev t w)) t = js_get (craftGrid w) c \<and>
      js_get (craftGrid (onDropToCraft ev t w)) c = js_get (craftGrid w) t \<and>
      inventory (onDropToCraft ev t w) = inventory w)"
proof -
  have swap: "js_get (js_set (js_set g t (js_get g c)) c (js_get g t)) t = js_get g c" for g
    by (cases "c = t") (simp_all add: js_get_js_set_same js_get_js_set_other)
  show ?thesis
    by (auto simp: onDropToInv_def onDropToCraft_def Let_def js_get_js_set_same swap)
qed

theorem drop_onto_slot_witness:
  "dropPayload world_craft None = Some (Craft 0) \<and>
   js_get (inv (inventory world_craft)) 4 = Null \<and>
   js_get (inv (inventory (onDropToInv None 4 world_craft))) 4 = Item ''petal'' \<and>
   js_get (craftGrid (onDropToInv None 4 world_craft)) 0 = Null \<and>
   js_get (craftGrid (onDropToCraft None 1 world_craft)) 1 = Item ''petal'' \<and>
   js_get (craftGrid (onDropToCraft None 1 world_craft)) 0 = Item ''leaf'' \<and>
   dropPayload (world_two\<lparr>dragData := None\<rparr>) (Some (Palette ''drop'')) =
     Some (Palette ''drop'') \<and>
   js_get (inv (inventory world_two)) 1 \<noteq> Null \<and>
   onDropToInv (Some (Palette ''drop'')) 1 (world_two\<lparr>dragData := None\<rparr>) =
     world_two\<lparr>dragData := None\<rparr>"
  using drop_onto_slot [of world_craft None "''x''" 0 4]
    drop_onto_slot [of world_craft None "''x''" 0 1]
    drop_onto_slot [of "world_two\<lparr>dragData := None\<rparr>" "Some (Palette ''drop'')" "''drop''" 0 1]
  by (simp add: world_craft_def world_two_def dropPayload_def js_get_def)

text \<open>
  C4 as stated fails for a grid item dropped onto an occupied grid slot: the petal of
  slot 0 dropped onto slot 1, which holds a leaf, exchanges the two; the state changes.
\<close>

theorem onDropToCraft_occupied_swaps_counterexample:
  "dropPayload world_craft None = Some (Craft 0) \<and>
   js_get (craftGrid world_craft) 1 \<noteq> Null \<and>
   craftGrid (onDropToCraft None 1 world_craft) =
     [Item ''leaf'', Item ''petal'', Null, Null, Null, Null, Null, Null, Null] \<and>
   onDropToCraft None 1 world_craft \<noteq> world_craft"
proof -
  have g: "craftGrid (onDropToCraft None 1 world_craft) =
     [Item ''leaf'', Item ''petal'', Null, Null, Null, Null, Null, Null, Null]"
    by (simp add: world_craft_def onDropToCraft_def dropPayload_def js_get_def js_set_def)
  have "craftGrid (onDropToCraft None 1 world_craft) \<noteq> craftGrid world_craft"
    unfolding g by (simp add: world_craft_def)
  then have "onDropToCraft None 1 world_craft \<noteq> world_craft" by auto
  with g show ?thesis
    by (simp add: world_craft_def dropPayload_def js_get_def)
qed

text \<open>
  C10. For every index \<open>i\<close>, dropping inventory slot \<open>i\<close> onto itself leaves slot \<open>i\<close>
  \<^verbatim>\<open>null\<close>: line 155 copies the slot onto itself and line 156 clears it. For an index
  inside the array every other slot keeps its value; the grid is untouched.
\<close>

theorem onDropToInv_same_slot_deletes:
  assumes "dropPayload w ev = Some (Inv i)"
  shows "js_get (inv (inventory (onDropToInv ev i w))) i = Null \<and>
         (i < length (inv (inventory w)) \<longrightarrow>
            inv (inventory (onDropToInv ev i w)) = (inv (inventory w))[i := Null]) \<and>
         craftGrid (onDropToInv ev i w) = craftGrid w"
  using assms
  by (simp add: onDropToInv_def Let_def js_get_js_set_same) (simp add: js_set_def js_get_def)

theorem onDropToInv_same_slot_deletes_witness:
  "dropPayload world_two None = Some (Inv 0) \<and>
   js_get (inv (inventory world_two)) 0 = Item ''petal'' \<and>
   js_get (inv (inventory (onDropToInv None 0 world_two))) 0 = Null"
proof -
  have p: "dropPayload world_two None = Some (Inv 0)"
    by (simp add: world_two_def dropPayload_def)
  show ?thesis
    using p onDropToInv_same_slot_deletes [OF p]
    by (simp add: world_two_def js_get_def)
qed

text \<open>
  C5. \<^verbatim>\<open>finalCrafted\<close> stays true under every action other than a confirmed reset;
  it turns from false to true only by a \<^verbatim>\<open>confirmCraft\<close> that crafts the last recipe of
  the catalog, and every craft of the last recipe sets it; a confirmed reset makes it
  false.
\<close>

theorem finalCrafted_one_way:
  "(finalCrafted (inventory w) \<and> a \<noteq> ResetGame True \<longrightarrow> finalCrafted (inventory (handle a w))) \<and>
   (\<not> finalCrafted (inventory w) \<and> finalCrafted (inventory (handle a w)) \<longrightarrow>
      a = ConfirmCraft \<and> fst (confirmCraft w) = Crafted (last RECIPES)) \<and>
   (fst (confirmCraft w) = Crafted (last RECIPES) \<longrightarrow>
      finalCrafted (inventory (handle ConfirmCraft w))) \<and>
   \<not> finalCrafted (inventory (handle (ResetGame True) w))"
proof -
  have "finalCrafted (inventory w) \<and> a \<noteq> ResetGame True \<longrightarrow>
          finalCrafted (inventory (handle a w))"
    using finalCrafted_handle [of a w] by (cases a) auto
  moreover have "\<not> finalCrafted (inventory w) \<and> finalCrafted (inventory (handle a w)) \<longrightarrow>
      a = ConfirmCraft \<and> fst (confirmCraft w) = Crafted (last RECIPES)"
    using finalCrafted_handle [of a w] by (cases a) auto
  moreover have "fst (confirmCraft w) = Crafted (last RECIPES) \<longrightarrow>
      finalCrafted (inventory (handle ConfirmCraft w))"
    by (simp add: finalCrafted_confirmCraft)
  moreover have "\<not> finalCrafted (inventory (handle (ResetGame True) w))"
    by (simp add: resetGame_def)
  ultimately show ?thesis by blast
qed

theorem finalCrafted_one_way_witness:
  "\<not> finalCrafted (inventory world_dew) \<and>
   fst (confirmCraft world_dew) = Crafted (last RECIPES) \<and>
   finalCrafted (inventory (handle ConfirmCraft world_dew)) \<and>
   ClearInventory \<noteq> ResetGame True \<and>
   finalCrafted (inventory (handle ClearInventory (handle ConfirmCraft world_dew)))"
proof -
  have c: "fst (confirmCraft world_dew) = Crafted (last RECIPES)"
    by (simp add: confirmCraft_world_dew RECIPES_def)
  have n: "\<not> finalCrafted (inventory world_dew)"
    by (simp add: world_dew_def)
  from c have f: "finalCrafted (inventory (handle ConfirmCraft world_dew))"
    using finalCrafted_one_way [of world_dew ConfirmCraft] by blast
  then have "finalCrafted (inventory (handle ClearInventory (handle ConfirmCraft world_dew)))"
    using finalCrafted_one_way [of "handle ConfirmCraft world_dew" ClearInventory] by blast
  with c n f show ?thesis by simp
qed

text \<open>
  C6. When a recipe \<open>r\<close> matches the grid and an inventory slot is \<^verbatim>\<open>null\<close>,
  \<^verbatim>\<open>confirmCraft\<close> crafts \<open>r\<close>, and afterwards the id of \<open>r\<close> is in \<^verbatim>\<open>discovered\<close>
  with value \<^verbatim>\<open>true\<close>; the other entries are kept; the keys stay distinct and the id
  of \<open>r\<close> occurs once among them; and crafting \<open>r\<close> where it is already discovered, in
  particular crafting it a second time, leaves \<^verbatim>\<open>discovered\<close> as it is.
\<close>

theorem confirmCraft_discovered:
  assumes "possibleRecipe (craftGrid w) = Some r" and "Null \<in> set (inv (inventory w))"
  shows "fst (confirmCraft w) = Crafted r \<and>
         map_of (discovered (inventory (snd (confirmCraft w)))) (id_recipe r) = Some True \<and>
         (\<forall>k v. map_of (discovered (inventory w)) k = Some v \<and> k \<noteq> id_recipe r \<longrightarrow>
                map_of (discovered (inventory (snd (confirmCraft w)))) k = Some v) \<and>
         (distinct (map fst (discovered (inventory w))) \<longrightarrow>
            distinct (map fst (discovered (inventory (snd (confirmCraft w))))) \<and>
            count_list (map fst (discovered (inventory (snd (confirmCraft w))))) (id_recipe r) = 1) \<and>
         (map_of (discovered (inventory w)) (id_recipe r) = Some True \<longrightarrow>
            discovered (inventory (snd (confirmCraft w))) = discovered (inventory w)) \<and>
         (\<forall>v::world. possibleRecipe (craftGrid v) = Some r \<and> Null \<in> set (inv (inventory v)) \<and>
              discovered (inventory v) = discovered (inventory (snd (confirmCraft w))) \<longrightarrow>
              discovered (inventory (snd (confirmCraft v))) =
                discovered (inventory (snd (confirmCraft w))))"
proof -
  let ?d = "discovered (inventory w)"
  let ?d' = "discovered (inventory (snd (confirmCraft w)))"
  have d: "?d' = AList.update (id_recipe r) True ?d"
    using assms by (rule confirmCraft_Crafted(2))
  have "fst (confirmCraft w) = Crafted r"
    using assms by (rule confirmCraft_Crafted(1))
  moreover have "map_of ?d' (id_recipe r) = Some True"
    by (simp add: d update_conv')
  moreover have "\<forall>k v. map_of ?d k = Some v \<and> k \<noteq> id_recipe r \<longrightarrow> map_of ?d' k = Some v"
    by (simp add: d update_conv')
  moreover have "distinct (map fst ?d) \<longrightarrow>
      distinct (map fst ?d') \<and> count_list (map fst ?d') (id_recipe r) = 1"
    by (simp add: d distinct_update count_list_keys_update)
  moreover have "map_of ?d (id_recipe r) = Some True \<longrightarrow> ?d' = ?d"
    by (simp add: d update_triv)
  moreover have "\<forall>v::world. possibleRecipe (craftGrid v) = Some r \<and> Null \<in> set (inv (inventory v)) \<and>
              discovered (inventory v) = ?d' \<longrightarrow>
              discovered (inventory (snd (confirmCraft v))) = ?d'"
  proof (intro allI impI)
    fix v :: world
    assume v: "possibleRecipe (craftGrid v) = Some r \<and> Null \<in> set (inv (inventory v)) \<and>
              discovered (inventory v) = ?d'"
    then have "discovered (inventory (snd (confirmCraft v))) =
        AList.update (id_recipe r) True ?d'"
      using confirmCraft_Crafted(2) [of v r] by simp
    also have "\<dots> = ?d'"
      unfolding d by simp
    finally show "discovered (inventory (snd (confirmCraft v))) = ?d'" .
  qed
  ultimately show ?thesis by blast
qed

theorem confirmCraft_discovered_witness:
  "possibleRecipe (craftGrid world_flower) = Some flower_bundle \<and>
   Null \<in> set (inv (inventory world_flower)) \<and>
   discovered (inventory world_flower) = [] \<and>
   fst (confirmCraft world_flower) = Crafted flower_bundle \<and>
   snd (confirmCraft world_flower) = world_crafted \<and>
   discovered (inventory world_crafted) = [(''flower_bundle'', True)] \<and>
   possibleRecipe (craftGrid (world_crafted\<lparr>craftGrid := grid_flower\<rparr>)) = Some flower_bundle \<and>
   Null \<in> set (inv (inventory (world_crafted\<lparr>craftGrid := grid_flower\<rparr>))) \<and>
   fst (confirmCraft (world_crafted\<lparr>craftGrid := grid_flower\<rparr>)) = Crafted flower_bundle \<and>
   discovered (inventory (snd (confirmCraft (world_crafted\<lparr>craftGrid := grid_flower\<rparr>)))) =
     [(''flower_bundle'', True)]"
proof -
  let ?v = "world_crafted\<lparr>craftGrid := grid_flower\<rparr>"
  have p: "possibleRecipe (craftGrid world_flower) = Some flower_bundle"
    by (simp add: world_flower_def possibleRecipe_grid_flower)
  have n: "Null \<in> set (inv (inventory world_flower))"
    by (simp add: world_flower_def)
  have p2: "possibleRecipe (craftGrid ?v) = Some flower_bundle"
    by (simp add: possibleRecipe_grid_flower)
  have n2: "Null \<in> set (inv (inventory ?v))"
    by (simp add: world_crafted_def)
  have s: "snd (confirmCraft world_flower) = world_crafted"
    by (simp add: confirmCraft_world_flower)
  have d0: "discovered (inventory world_flower) = []"
    by (simp add: world_flower_def)
  have d: "discovered (inventory world_crafted) = [(''flower_bundle'', True)]"
    by (simp add: world_crafted_def)
  have e: "discovered (inventory ?v) = discovered (inventory (snd (confirmCraft world_flower)))"
    by (simp add: s)
  have f1: "fst (confirmCraft world_flower) = Crafted flower_bundle"
    using confirmCraft_discovered [OF p n] by blast
  have "discovered (inventory (snd (confirmCraft ?v))) =
      discovered (inventory (snd (confirmCraft world_flower)))"
    using confirmCraft_discovered [OF p n] p2 n2 e by blast
  then have d2: "discovered (inventory (snd (confirmCraft ?v))) = [(''flower_bundle'', True)]"
    by (simp add: s d)
  have f2: "fst (confirmCraft ?v) = Crafted flower_bundle"
    using confirmCraft_discovered [OF p2 n2] by blast
  from p n d0 f1 s d p2 n2 f2 d2 show ?thesis by blast
qed

text \<open>
  C7. \<^verbatim>\<open>canCraftWithResources\<close> returns, in catalog order, exactly the recipes whose
  ingredient multiset is contained in the multiset of the items of the inventory
  together with those of the grid. With a petal and a leaf in the inventory and one
  petal on the grid, the flower bundle is craftable although the grid matches no recipe.
\<close>

theorem canCraftWithResources_subset:
  "canCraftWithResources w =
     filter (\<lambda>r. mset (ingredients r) \<subseteq>#
                   mset (items (inv (inventory w))) + mset (items (craftGrid w))) RECIPES"
  unfolding canCraftWithResources_def Let_def sufficient_iff_subset
  by (rule filter_cong)
    (simp_all add: items_subset_filterBoolean catalog_ingredients_nonempty items_append)

theorem canCraftWithResources_subset_witness:
  "canCraftWithResources world_parts = [flower_bundle] \<and>
   possibleRecipe (craftGrid world_parts) = None"
proof -
  have "possibleRecipe (craftGrid world_parts) = None"
    by (simp add: possibleRecipe_def RECIPES_def matchRecipe_iff_filterBoolean
      flower_bundle_def sparkling_dew_def world_parts_def)
  moreover have "canCraftWithResources world_parts = [flower_bundle]"
    using canCraftWithResources_subset [of world_parts]
    by (simp add: world_parts_def RECIPES_def flower_bundle_def sparkling_dew_def
        items_replicate_Null)
  ultimately show ?thesis by simp
qed

text \<open>
  C8, as the code has it. After a confirmed reset the inventory is 18 \<^verbatim>\<open>null\<close> slots,
  the grid 9 \<^verbatim>\<open>null\<close> slots, \<^verbatim>\<open>discovered\<close> is empty and \<^verbatim>\<open>finalCrafted\<close> false, and
  the handler has removed the stored entry. \<^verbatim>\<open>resetGame\<close> calls \<^verbatim>\<open>setInventory\<close>, so the
  effect of \<^verbatim>\<open>usePersistedState\<close> runs after it and writes the serialized fresh state
  under the key: the entry ends present, holding the fresh state. A reset the user
  declines changes nothing.
\<close>

theorem resetGame_fresh:
  "inventory (resetGame True w) = initial \<and>
   inv (inventory (resetGame True w)) = replicate 18 Null \<and>
   craftGrid (resetGame True w) = replicate 9 Null \<and>
   discovered (inventory (resetGame True w)) = [] \<and>
   \<not> finalCrafted (inventory (resetGame True w)) \<and>
   storage (resetGame True w) STORAGE_KEY = None \<and>
   storage (usePersistedState_effect stringify (resetGame True w)) STORAGE_KEY =
     Some (stringify initial) \<and>
   resetGame False w = w"
  by (simp add: resetGame_def usePersistedState_effect_def initial_def)

theorem resetGame_fresh_witness:
  "storage world_saved STORAGE_KEY = Some ''saved'' \<and>
   inventory (resetGame True world_saved) = initial \<and>
   craftGrid (resetGame True world_saved) = replicate 9 Null \<and>
   storage (resetGame True world_saved) STORAGE_KEY = None"
  using resetGame_fresh [of world_saved]
  by (simp add: world_saved_def)

text \<open>
  C8 as stated fails on its last part: once the persistence effect that follows the
  reset has run, the key is not absent from the store; it holds what the serializer
  returns for the fresh state.
\<close>

theorem resetGame_entry_rewritten_counterexample:
  "storage world_saved STORAGE_KEY = Some ''saved'' \<and>
   storage (usePersistedState_effect stringify_tag (resetGame True world_saved)) STORAGE_KEY =
     Some ''fresh''"
  by (simp add: world_saved_def resetGame_def usePersistedState_effect_def stringify_tag_def
      initial_def)

text \<open>
  C9. For a parser that, like \<^verbatim>\<open>JSON.parse\<close>, throws on the empty text, the initial
  state of \<^verbatim>\<open>usePersistedState\<close> is always a value: the initial state when nothing is
  stored, the parsed value when the stored text parses, and the initial state when
  parsing the stored text throws.
\<close>

theorem usePersistedState_init_total:
  assumes "parse [] = Inl SyntaxError"
  shows "(\<exists>v. usePersistedState_init parse raw ini = Inr v) \<and>
         (raw = None \<longrightarrow> usePersistedState_init parse raw ini = Inr ini) \<and>
         (\<forall>r v. raw = Some r \<and> parse r = Inr v \<longrightarrow>
                usePersistedState_init parse raw ini = Inr v) \<and>
         (\<forall>r e. raw = Some r \<and> parse r = Inl e \<longrightarrow>
                usePersistedState_init parse raw ini = Inr ini)"
  using assms by (auto simp: usePersistedState_init_def split: option.splits sum.splits)

theorem usePersistedState_init_total_witness:
  "parse_saved [] = Inl SyntaxError \<and>
   usePersistedState_init parse_saved (Some ''saved'') initial = Inr (inventory world_saved) \<and>
   usePersistedState_init parse_saved None initial = Inr initial \<and>
   usePersistedState_init parse_saved (Some ''{inv:'') initial = Inr initial"
proof -
  have e: "parse_saved [] = Inl SyntaxError"
    by (simp add: parse_saved_def)
  have "parse_saved ''saved'' = Inr (inventory world_saved)"
    and "parse_saved ''{inv:'' = Inl SyntaxError"
    by (simp_all add: parse_saved_def)
  then show ?thesis
    using e usePersistedState_init_total [of parse_saved "Some ''saved''" initial, OF e]
      usePersistedState_init_total [of parse_saved None initial, OF e]
      usePersistedState_init_total [of parse_saved "Some ''{inv:''" initial, OF e]
    by simp
qed

end
